theory Spec2Isabelle
  imports Main
begin

section \<open>JavaScript values, objects and the heap\<close>

text \<open>
  The handler of \<^verbatim>\<open>splunk-iot-processor/index.js\<close> receives an event that was
  deserialised from JSON: undefined, null, a boolean, a number, a string, or a reference
  to an object (arrays are objects whose keys are their indices and \<^verbatim>\<open>length\<close>).
  Objects live in a heap and are reached through references, so that two names for the
  same object see each other's updates. Numbers are modelled as integers; the program
  never computes with the numbers of an event.
\<close>

datatype val =
    VUndefined
  | VNull
  | VBool bool
  | VNum int
  | VStr string
  | VRef nat

text \<open>An object is its own properties in insertion order; every address holds one.\<close>

type_synonym obj = "(string \<times> val) list"

type_synonym heap = "nat \<Rightarrow> obj"

datatype exn = TypeError

definition empty_heap :: heap where
  "empty_heap = (\<lambda>_. [])"

text \<open>The \<^verbatim>\<open>typeof\<close> operator; \<^verbatim>\<open>typeof null\<close> is \<^verbatim>\<open>'object'\<close>.\<close>

fun typeof_val :: "val \<Rightarrow> string" where
  "typeof_val VUndefined = ''undefined''"
| "typeof_val VNull = ''object''"
| "typeof_val (VBool b) = ''boolean''"
| "typeof_val (VNum n) = ''number''"
| "typeof_val (VStr s) = ''string''"
| "typeof_val (VRef a) = ''object''"

text \<open>Conversion to boolean, as \<^verbatim>\<open>&&\<close>, \<^verbatim>\<open>||\<close> and \<^verbatim>\<open>if\<close> apply it.\<close>

fun truthy :: "val \<Rightarrow> bool" where
  "truthy VUndefined = False"
| "truthy VNull = False"
| "truthy (VBool b) = b"
| "truthy (VNum n) = (n \<noteq> 0)"
| "truthy (VStr s) = (s \<noteq> [])"
| "truthy (VRef a) = True"

definition own_keys :: "obj \<Rightarrow> string set" where
  "own_keys ob = fst ` set ob"

definition field_count :: "string \<Rightarrow> obj \<Rightarrow> nat" where
  "field_count k ob = length (filter (\<lambda>p. fst p = k) ob)"

text \<open>Writing a property replaces its value in place, or appends a new property.\<close>

fun put_property :: "string \<Rightarrow> val \<Rightarrow> obj \<Rightarrow> obj" where
  "put_property k v [] = [(k, v)]"
| "put_property k v (p # ps) =
     (if fst p = k then (k, v) # ps else p # put_property k v ps)"

text \<open>
  \<^verbatim>\<open>Object.prototype.hasOwnProperty.call(x, 'awsRequestId')\<close>: the receiver is converted
  to an object first, which throws a TypeError for undefined and null. The wrapper of a
  boolean or a number has no own property, and the own properties of a string's wrapper
  are \<^verbatim>\<open>length\<close> and its indices, so no primitive owns \<^verbatim>\<open>awsRequestId\<close>.
\<close>

fun hasOwnProperty_awsRequestId :: "heap \<Rightarrow> val \<Rightarrow> exn + bool" where
  "hasOwnProperty_awsRequestId h VUndefined = Inl TypeError"
| "hasOwnProperty_awsRequestId h VNull = Inl TypeError"
| "hasOwnProperty_awsRequestId h (VBool b) = Inr False"
| "hasOwnProperty_awsRequestId h (VNum n) = Inr False"
| "hasOwnProperty_awsRequestId h (VStr s) = Inr False"
| "hasOwnProperty_awsRequestId h (VRef a) = Inr (''awsRequestId'' \<in> own_keys (h a))"

text \<open>
  \<^verbatim>\<open>x.awsRequestId = v\<close> in strict mode: it writes the property of an object and throws
  a TypeError for every other receiver. (Events come from JSON, so no object is frozen.)
\<close>

fun assign_awsRequestId :: "heap \<Rightarrow> val \<Rightarrow> val \<Rightarrow> exn + heap" where
  "assign_awsRequestId h (VRef a) v = Inr (h(a := put_property ''awsRequestId'' v (h a)))"
| "assign_awsRequestId h x v = Inl TypeError"

text \<open>
  \<^verbatim>\<open>x.code\<close>: a TypeError for undefined and null, the own property of an object
  (undefined when it has none), and undefined for a primitive: no prototype of the
  standard library has a property \<^verbatim>\<open>code\<close>.
\<close>

fun get_code :: "heap \<Rightarrow> val \<Rightarrow> exn + val" where
  "get_code h VUndefined = Inl TypeError"
| "get_code h VNull = Inl TypeError"
| "get_code h (VBool b) = Inr VUndefined"
| "get_code h (VNum n) = Inr VUndefined"
| "get_code h (VStr s) = Inr VUndefined"
| "get_code h (VRef a) =
     Inr (case map_of (h a) ''code'' of None \<Rightarrow> VUndefined | Some v \<Rightarrow> v)"

section \<open>The observable world\<close>

text \<open>
  The invocation context of the Lambda runtime (the two fields the program reads), the
  object literal handed to \<^verbatim>\<open>logger.send\<close>, and the record the transport queues for
  it after formatting: the formatted event with the metadata the caller gave (what the
  transport adds by default on the wire is outside the model).
\<close>

record lambda_context =
  awsRequestId :: val
  functionName :: string

record send_context =
  message :: val
  metadata :: obj

record queued =
  event :: val
  meta :: obj

text \<open>
  An error object is either what the HTTP request reported or what the collector's
  response code was turned into. The callback of the Lambda runtime is known by an
  identifier, so that a call of a former invocation's callback can be told apart.
\<close>

datatype js_error = RequestError string | SplunkError val

datatype log_arg =
    LText string
  | LStringified val
  | LValue val
  | LError js_error
  | LPayload "queued list"

datatype effect =
    ConsoleLog "log_arg list"
  | HttpPost "queued list"
  | Callback nat "js_error option" val

record world =
  heap :: heap
  trace :: "effect list"

definition emit :: "effect list \<Rightarrow> world \<Rightarrow> world" where
  "emit es w = w\<lparr>trace := trace w @ es\<rparr>"

section \<open>The configuration and the shared transport client\<close>

record logger_config =
  url :: "string option"
  token :: "string option"
  maxBatchCount :: nat
  maxRetries :: nat

text \<open>\<^verbatim>\<open>loggerConfig\<close> (lines 26 to 31), over the process environment.\<close>

definition loggerConfig :: "(string \<Rightarrow> string option) \<Rightarrow> logger_config" where
  "loggerConfig env =
     \<lparr>url = env ''SPLUNK_HEC_URL'',
      token = env ''SPLUNK_HEC_TOKEN'',
      maxBatchCount = 0,
      maxRetries = 3\<rparr>"

text \<open>
  The transport client is one object for the whole process: its configuration, its two
  replaceable hooks (closures, modelled as functions) and its queue.
\<close>

record logger =
  config :: logger_config
  eventFormatter :: "heap \<Rightarrow> val \<Rightarrow> exn + heap \<times> val"
  error :: "js_error \<Rightarrow> queued list \<Rightarrow> world \<Rightarrow> world"
  queue :: "queued list"

text \<open>What one HTTP exchange with the collector ends with, after the transport's retries.\<close>

record http_outcome =
  req_err :: "js_error option"
  resp :: val
  resp_body :: val

text \<open>
  Modelled from the spec: \<^verbatim>\<open>Logger.send\<close> of the \<^verbatim>\<open>splunk-logging\<close> package, which the
  repository requires and does not contain. It passes the message through the installed
  payload hook and puts the record, with the caller's metadata, on the send queue.
\<close>

definition send :: "logger \<Rightarrow> send_context \<Rightarrow> world \<Rightarrow> exn + logger \<times> world" where
  "send lg c w =
     (case eventFormatter lg (heap w) (message c) of
        Inl x \<Rightarrow> Inl x
      | Inr (h', ev') \<Rightarrow>
          Inr (lg\<lparr>queue := queue lg @ [\<lparr>event = ev', meta = metadata c\<rparr>]\<rparr>,
               w\<lparr>heap := h'\<rparr>))"

text \<open>
  Modelled from the spec: whether the transport treats an exchange as failed: a
  transport-level error occurred, or the parsed response body exists and its status
  code field is non-zero.
\<close>

definition transport_failure :: "heap \<Rightarrow> http_outcome \<Rightarrow> js_error option" where
  "transport_failure h r =
     (case req_err r of
        Some e \<Rightarrow> Some e
      | None \<Rightarrow>
          (if truthy (resp_body r) then
             (case get_code h (resp_body r) of
                Inl x \<Rightarrow> None
              | Inr c \<Rightarrow> if c = VNum 0 then None else Some (SplunkError c))
           else None))"

text \<open>
  Modelled from the spec: \<^verbatim>\<open>Logger.flush\<close> of the \<^verbatim>\<open>splunk-logging\<close> package. It
  transmits the queued records as a single batch, routes a failure with the failing
  payload to the installed error hook, and then calls its completion function with the
  transport error, the response and the parsed body.
\<close>

definition flush ::
  "logger \<Rightarrow> http_outcome \<Rightarrow> (js_error option \<Rightarrow> val \<Rightarrow> val \<Rightarrow> world \<Rightarrow> exn + world)
     \<Rightarrow> world \<Rightarrow> exn + logger \<times> world" where
  "flush lg r k w =
     (let batch = queue lg;
          lg' = lg\<lparr>queue := []\<rparr>;
          w1 = emit [HttpPost batch] w;
          w2 = (case transport_failure (heap w1) r of
                  None \<Rightarrow> w1
                | Some e \<Rightarrow> error lg e batch w1)
      in case k (req_err r) (resp r) (resp_body r) w2 of
           Inl x \<Rightarrow> Inl x
         | Inr w3 \<Rightarrow> Inr (lg', w3))"

section \<open>The program\<close>

text \<open>The payload hook that \<^verbatim>\<open>configureLogger\<close> installs (lines 73 to 80).\<close>

definition configureLogger_eventFormatter ::
  "lambda_context \<Rightarrow> heap \<Rightarrow> val \<Rightarrow> exn + heap \<times> val" where
  "configureLogger_eventFormatter context h ev =
     (if typeof_val ev = ''object'' then
        (case hasOwnProperty_awsRequestId h ev of
           Inl x \<Rightarrow> Inl x
         | Inr b \<Rightarrow>
             if b then Inr (h, ev)
             else (case assign_awsRequestId h ev (awsRequestId context) of
                     Inl x \<Rightarrow> Inl x
                   | Inr h' \<Rightarrow> Inr (h', ev)))
      else Inr (h, ev))"

text \<open>The error hook that \<^verbatim>\<open>configureLogger\<close> installs (lines 83 to 86).\<close>

definition configureLogger_error :: "nat \<Rightarrow> js_error \<Rightarrow> queued list \<Rightarrow> world \<Rightarrow> world" where
  "configureLogger_error callback err payload w =
     emit [Callback callback (Some err) VUndefined]
       (emit [ConsoleLog [LText ''error'', LError err, LText ''context'', LPayload payload]] w)"

definition configureLogger :: "lambda_context \<Rightarrow> nat \<Rightarrow> logger \<Rightarrow> logger" where
  "configureLogger context callback lg =
     lg\<lparr>eventFormatter := configureLogger_eventFormatter context,
        error := configureLogger_error callback\<rparr>"

text \<open>The object literal that the handler passes to \<^verbatim>\<open>logger.send\<close> (lines 47 to 56).\<close>

definition handler_send_context :: "val \<Rightarrow> lambda_context \<Rightarrow> send_context" where
  "handler_send_context ev context =
     \<lparr>message = ev,
      metadata =
        [(''host'', VStr ''serverless''),
         (''source'', VStr (''lambda:'' @ functionName context)),
         (''sourcetype'', VStr ''httpevent'')]\<rparr>"

text \<open>
  The function the handler passes to \<^verbatim>\<open>logger.flush\<close> (lines 59 to 68):
  \<^verbatim>\<open>err || (body && body.code !== 0)\<close> with its short-circuit order.
\<close>

definition handler_flush_callback ::
  "nat \<Rightarrow> val \<Rightarrow> js_error option \<Rightarrow> val \<Rightarrow> val \<Rightarrow> world \<Rightarrow> exn + world" where
  "handler_flush_callback callback ev err rsp body w =
     (let succeeded =
            emit [Callback callback None ev]
              (emit [ConsoleLog [LText ''Response from Splunk:'', LValue body]] w)
      in if err = None then
           (if truthy body then
              (case get_code (heap w) body of
                 Inl x \<Rightarrow> Inl x
               | Inr c \<Rightarrow> if c = VNum 0 then Inr succeeded else Inr w)
            else Inr succeeded)
         else Inr w)"

text \<open>
  One invocation of \<^verbatim>\<open>exports.handler\<close> (lines 37 to 69), run until the flush has
  completed: it either returns, or an exception leaves it. The first log line carries
  \<^verbatim>\<open>JSON.stringify(event, null, 2)\<close>, whose text is not modelled; an event that comes
  from JSON has no cycle, so the call does not throw. The outcome of the HTTP exchange
  is an input of the model.
\<close>

datatype result = Threw exn logger world | Returned logger world

definition handler ::
  "logger \<Rightarrow> val \<Rightarrow> lambda_context \<Rightarrow> nat \<Rightarrow> http_outcome \<Rightarrow> world \<Rightarrow> result" where
  "handler lg ev context callback r w =
     (let w1 = emit [ConsoleLog [LText ''Received event:'', LStringified ev]] w;
          lg1 = configureLogger context callback lg
      in case send lg1 (handler_send_context ev context) w1 of
           Inl x \<Rightarrow> Threw x lg1 w1
         | Inr (lg2, w2) \<Rightarrow>
             (case flush lg2 r (handler_flush_callback callback ev) w2 of
                Inl x \<Rightarrow> Threw x lg2 w2
              | Inr (lg3, w3) \<Rightarrow> Returned lg3 w3))"

fun result_logger :: "result \<Rightarrow> logger" where
  "result_logger (Threw x lg w) = lg"
| "result_logger (Returned lg w) = lg"

section \<open>Example inputs\<close>

text \<open>
  A context, a heap with a plain event (address 10), two collector responses (20 accepts,
  30 rejects) and an event that already carries a tracing id (40), and a transport client
  whose hooks are leftovers that do nothing.
\<close>

definition example_context :: lambda_context where
  "example_context = \<lparr>awsRequestId = VStr ''req-1'', functionName = ''iot-to-splunk''\<rparr>"

definition example_heap :: heap where
  "example_heap =
     empty_heap
       (10 := [(''temperature'', VNum 21)],
        20 := [(''text'', VStr ''Success''), (''code'', VNum 0)],
        30 := [(''text'', VStr ''Invalid token''), (''code'', VNum 1)],
        40 := [(''awsRequestId'', VStr ''given''), (''temperature'', VNum 21)])"

definition example_world :: world where
  "example_world = \<lparr>heap = example_heap, trace = []\<rparr>"

definition stale_logger :: logger where
  "stale_logger =
     \<lparr>config = loggerConfig Map.empty,
      eventFormatter = (\<lambda>h v. Inr (h, v)),
      error = (\<lambda>e p w. w),
      queue = []\<rparr>"

definition accepted :: http_outcome where
  "accepted = \<lparr>req_err = None, resp = VUndefined, resp_body = VRef 20\<rparr>"

definition rejected :: http_outcome where
  "rejected = \<lparr>req_err = None, resp = VUndefined, resp_body = VRef 30\<rparr>"

definition unreachable :: http_outcome where
  "unreachable =
     \<lparr>req_err = Some (RequestError ''ECONNREFUSED''), resp = VUndefined,
      resp_body = VUndefined\<rparr>"

section \<open>Objects\<close>

lemma put_property_absent:
  "k \<notin> own_keys ob \<Longrightarrow> put_property k v ob = ob @ [(k, v)]"
  by (induction ob) (auto simp: own_keys_def)

lemma field_count_absent: "k \<notin> own_keys ob \<Longrightarrow> field_count k ob = 0"
  by (induction ob) (auto simp: own_keys_def field_count_def)

lemma field_count_append:
  "field_count k (xs @ ys) = field_count k xs + field_count k ys"
  by (simp add: field_count_def)

lemma map_of_absent: "k \<notin> own_keys ob \<Longrightarrow> map_of ob k = None"
  by (simp add: own_keys_def map_of_eq_None_iff)

lemma get_code_truthy: "get_code h x = Inr (VNum n) \<Longrightarrow> truthy x"
  by (cases x) auto

lemma get_code_append_awsRequestId:
  "get_code (h(a := h a @ [(''awsRequestId'', v)])) x = get_code h x"
proof (cases x)
  case (VRef b)
  show ?thesis
  proof (cases "b = a")
    case True
    have "map_of (h a @ [(''awsRequestId'', v)]) ''code'' = map_of (h a) ''code''"
      by (simp add: map_add_def split: option.splits)
    with True VRef show ?thesis by simp
  next
    case False
    with VRef show ?thesis by simp
  qed
qed simp_all

lemma heap_emit: "heap (emit es w) = heap w"
  by (simp add: emit_def)

section \<open>The payload hook\<close>

lemma eventFormatter_ref:
  "configureLogger_eventFormatter ctx h (VRef a) =
     (if ''awsRequestId'' \<in> own_keys (h a) then Inr (h, VRef a)
      else Inr (h(a := h a @ [(''awsRequestId'', awsRequestId ctx)]), VRef a))"
  by (simp add: configureLogger_eventFormatter_def put_property_absent)

lemma eventFormatter_null:
  "configureLogger_eventFormatter ctx h VNull = Inl TypeError"
  by (simp add: configureLogger_eventFormatter_def)

lemma eventFormatter_primitive:
  "typeof_val ev \<noteq> ''object'' \<Longrightarrow>
     configureLogger_eventFormatter ctx h ev = Inr (h, ev)"
  by (simp add: configureLogger_eventFormatter_def)

lemma eventFormatter_cases:
  "configureLogger_eventFormatter ctx h ev = Inr (h', ev') \<Longrightarrow>
     ev' = ev \<and> ev \<noteq> VNull \<and>
     (h' = h \<or> (\<exists>a. ev = VRef a \<and> ''awsRequestId'' \<notin> own_keys (h a) \<and>
         h' = h(a := h a @ [(''awsRequestId'', awsRequestId ctx)])))"
proof (cases ev)
  case (VRef a)
  assume "configureLogger_eventFormatter ctx h ev = Inr (h', ev')"
  with VRef show ?thesis
    by (auto simp: eventFormatter_ref split: if_splits)
qed (auto simp: configureLogger_eventFormatter_def)

lemma eventFormatter_defined:
  "ev \<noteq> VNull \<Longrightarrow> \<exists>h'. configureLogger_eventFormatter ctx h ev = Inr (h', ev)"
  by (cases ev) (auto simp: eventFormatter_ref configureLogger_eventFormatter_def)

lemma eventFormatter_get_code:
  "configureLogger_eventFormatter ctx h ev = Inr (h', ev') \<Longrightarrow>
     get_code h' x = get_code h x"
  by (auto dest!: eventFormatter_cases simp: get_code_append_awsRequestId)

lemma eventFormatter_again:
  assumes "configureLogger_eventFormatter ctx h ev = Inr (h', ev')"
  shows "configureLogger_eventFormatter ctx' h' ev' = Inr (h', ev')"
proof (cases ev)
  case (VRef a)
  with assms have "ev' = VRef a" and "''awsRequestId'' \<in> own_keys (h' a)"
    by (auto simp: eventFormatter_ref own_keys_def split: if_splits)
  then show ?thesis
    by (simp add: eventFormatter_ref)
next
  case VNull
  with assms show ?thesis by (simp add: eventFormatter_null)
qed (use assms in \<open>auto simp: configureLogger_eventFormatter_def\<close>)

text \<open>
  Claim C3: for a structured event (a reference to an object) that lacks the field
  \<^verbatim>\<open>awsRequestId\<close>, the payload hook returns the same reference, and the object then has
  exactly one field \<^verbatim>\<open>awsRequestId\<close>, appended to its former fields, whose value is the
  tracing id of the invocation context.
\<close>

theorem tracing_id_added:
  assumes "''awsRequestId'' \<notin> own_keys (h a)"
  shows "configureLogger_eventFormatter ctx h (VRef a) =
           Inr (h(a := h a @ [(''awsRequestId'', awsRequestId ctx)]), VRef a)
         \<and> field_count ''awsRequestId'' (h a @ [(''awsRequestId'', awsRequestId ctx)]) = 1
         \<and> map_of (h a @ [(''awsRequestId'', awsRequestId ctx)]) ''awsRequestId''
             = Some (awsRequestId ctx)"
proof -
  have "field_count ''awsRequestId'' [(''awsRequestId'', awsRequestId ctx)] = 1"
    by (simp add: field_count_def)
  then show ?thesis
    using assms
    by (simp add: eventFormatter_ref field_count_append field_count_absent
        map_of_absent map_add_def)
qed

theorem tracing_id_added_witness:
  "''awsRequestId'' \<notin> own_keys (example_heap 10)
   \<and> configureLogger_eventFormatter example_context example_heap (VRef 10) =
       Inr (example_heap(10 := [(''temperature'', VNum 21), (''awsRequestId'', VStr ''req-1'')]),
            VRef 10)
   \<and> field_count ''awsRequestId''
        [(''temperature'', VNum 21), (''awsRequestId'', VStr ''req-1'')] = 1"
proof -
  have lacks: "''awsRequestId'' \<notin> own_keys (example_heap 10)"
    by (simp add: example_heap_def own_keys_def)
  have obj: "example_heap 10 = [(''temperature'', VNum 21)]"
    by (simp add: example_heap_def)
  show ?thesis
    using lacks
      tracing_id_added [where h = example_heap and a = 10 and ctx = example_context]
    by (simp add: obj example_context_def)
qed

text \<open>
  Claim C4: for a structured event that already has the field \<^verbatim>\<open>awsRequestId\<close>, the
  payload hook changes nothing, so the field keeps its value; and whenever the hook has
  returned, running it again (for any context) on its result returns that same result.
\<close>

theorem tracing_id_preserved:
  "(''awsRequestId'' \<in> own_keys (h a) \<longrightarrow>
      configureLogger_eventFormatter ctx h (VRef a) = Inr (h, VRef a))
   \<and> (configureLogger_eventFormatter ctx h ev = Inr (h', ev') \<longrightarrow>
      configureLogger_eventFormatter ctx' h' ev' = Inr (h', ev'))"
  by (simp add: eventFormatter_ref eventFormatter_again)

theorem tracing_id_preserved_witness:
  "''awsRequestId'' \<in> own_keys (example_heap 40)
   \<and> configureLogger_eventFormatter example_context example_heap (VRef 40) =
       Inr (example_heap, VRef 40)
   \<and> map_of (example_heap 40) ''awsRequestId'' = Some (VStr ''given'')
   \<and> configureLogger_eventFormatter example_context example_heap (VRef 10) =
       Inr (example_heap(10 := [(''temperature'', VNum 21), (''awsRequestId'', VStr ''req-1'')]),
            VRef 10)
   \<and> configureLogger_eventFormatter example_context
        (example_heap(10 := [(''temperature'', VNum 21), (''awsRequestId'', VStr ''req-1'')]))
        (VRef 10) =
       Inr (example_heap(10 := [(''temperature'', VNum 21), (''awsRequestId'', VStr ''req-1'')]),
            VRef 10)"
proof -
  have has: "''awsRequestId'' \<in> own_keys (example_heap 40)"
    by (simp add: example_heap_def own_keys_def)
  have once: "configureLogger_eventFormatter example_context example_heap (VRef 10) =
       Inr (example_heap(10 := [(''temperature'', VNum 21), (''awsRequestId'', VStr ''req-1'')]),
            VRef 10)"
    by (simp add: eventFormatter_ref example_heap_def own_keys_def example_context_def)
  have val: "map_of (example_heap 40) ''awsRequestId'' = Some (VStr ''given'')"
    by (simp add: example_heap_def)
  show ?thesis
    using has once val
      tracing_id_preserved [where h = example_heap and a = 40 and ctx = example_context
        and ev = "VRef 10" and ev' = "VRef 10" and ctx' = example_context and
        h' = "example_heap(10 := [(''temperature'', VNum 21), (''awsRequestId'', VStr ''req-1'')])"]
    by simp
qed

text \<open>
  Claim C5, at the null event: null is not a structured value, yet the payload hook does
  not return it unchanged; it throws a TypeError.
\<close>

theorem null_event_not_forwarded:
  "configureLogger_eventFormatter example_context example_heap VNull = Inl TypeError
   \<and> configureLogger_eventFormatter example_context example_heap VNull
       \<noteq> Inr (example_heap, VNull)"
  by (simp add: configureLogger_eventFormatter_def)

section \<open>One invocation\<close>

lemma message_handler_send_context: "message (handler_send_context ev ctx) = ev"
  by (simp add: handler_send_context_def)

lemmas handler_defs =
  message_handler_send_context heap_emit
  handler_def send_def flush_def transport_failure_def handler_flush_callback_def
  configureLogger_def configureLogger_error_def emit_def Let_def

text \<open>The function passed to \<^verbatim>\<open>logger.flush\<close> never throws.\<close>

lemma handler_flush_callback_total:
  "\<exists>w'. handler_flush_callback callback ev err rsp body w = Inr w'"
  by (cases body) (auto simp: handler_flush_callback_def Let_def)

text \<open>The run of an invocation whose exchange the handler takes as a success.\<close>

lemma handler_success:
  assumes fmt: "configureLogger_eventFormatter ctx (heap w) ev = Inr (h', ev)"
    and ok: "req_err r = None"
    and body: "\<not> truthy (resp_body r) \<or> get_code (heap w) (resp_body r) = Inr (VNum 0)"
  shows "handler lg ev ctx callback r w =
     Returned ((configureLogger ctx callback lg)\<lparr>queue := []\<rparr>)
       (w\<lparr>heap := h',
          trace := trace w @
            [ConsoleLog [LText ''Received event:'', LStringified ev],
             HttpPost (queue lg @
               [\<lparr>event = ev, meta = metadata (handler_send_context ev ctx)\<rparr>]),
             ConsoleLog [LText ''Response from Splunk:'', LValue (resp_body r)],
             Callback callback None ev]\<rparr>)"
proof -
  have "get_code h' (resp_body r) = get_code (heap w) (resp_body r)"
    using fmt by (rule eventFormatter_get_code)
  with body have "\<not> truthy (resp_body r) \<or> get_code h' (resp_body r) = Inr (VNum 0)"
    by simp
  then show ?thesis
    using fmt ok by (auto simp: handler_defs)
qed

text \<open>The run of an invocation whose exchange the transport treats as failed.\<close>

lemma handler_failure:
  assumes fmt: "configureLogger_eventFormatter ctx (heap w) ev = Inr (h', ev)"
    and bad: "transport_failure (heap w) r = Some e"
  shows "handler lg ev ctx callback r w =
     Returned ((configureLogger ctx callback lg)\<lparr>queue := []\<rparr>)
       (w\<lparr>heap := h',
          trace := trace w @
            [ConsoleLog [LText ''Received event:'', LStringified ev],
             HttpPost (queue lg @
               [\<lparr>event = ev, meta = metadata (handler_send_context ev ctx)\<rparr>]),
             ConsoleLog [LText ''error'', LError e, LText ''context'',
               LPayload (queue lg @
                 [\<lparr>event = ev, meta = metadata (handler_send_context ev ctx)\<rparr>])],
             Callback callback (Some e) VUndefined]\<rparr>)"
proof -
  have gc: "get_code h' (resp_body r) = get_code (heap w) (resp_body r)"
    using fmt by (rule eventFormatter_get_code)
  show ?thesis
    using fmt bad gc
    by (auto simp: handler_defs split: option.splits sum.splits if_splits)
qed

lemma handler_null:
  "handler lg VNull ctx callback r w =
     Threw TypeError (configureLogger ctx callback lg)
       (emit [ConsoleLog [LText ''Received event:'', LStringified VNull]] w)"
  by (simp add: handler_def send_def configureLogger_def eventFormatter_null heap_emit
      message_handler_send_context Let_def)

lemma handler_stale_hooks:
  "handler (lg\<lparr>eventFormatter := f, error := g\<rparr>) ev ctx callback r w =
   handler lg ev ctx callback r w"
  by (simp add: handler_def configureLogger_def)

lemma handler_config:
  "config (result_logger (handler lg ev ctx callback r w)) = config lg"
  by (auto simp: handler_defs split: sum.splits option.splits prod.splits)

lemma handler_returned_queue:
  "handler lg ev ctx callback r w = Returned lg' w' \<Longrightarrow> queue lg' = []"
  by (auto simp: handler_defs split: sum.splits option.splits prod.splits if_splits)

lemma handler_returned_post:
  assumes "handler lg ev ctx callback r w = Returned lg' w'"
  shows "HttpPost (queue lg @
           [\<lparr>event = ev, meta = metadata (handler_send_context ev ctx)\<rparr>])
         \<in> set (trace w')"
proof -
  from assms have "ev \<noteq> VNull"
    by (auto simp: handler_null)
  then obtain h' where "configureLogger_eventFormatter ctx (heap w) ev = Inr (h', ev)"
    using eventFormatter_defined by blast
  with assms show ?thesis
    by (auto simp: handler_defs split: option.splits sum.splits if_splits)
qed

section \<open>The claims about an invocation\<close>

text \<open>
  Claim C1: when the flush completes with no transport error and a response body whose
  \<^verbatim>\<open>code\<close> is 0, the function the handler gave to the flush logs the response and calls
  the completion callback with no error and the input event; and so an invocation that
  reaches the flush (its event is not null) returns, and what it adds to the trace ends
  with that call of its own completion callback.
\<close>

theorem success_reported:
  assumes "req_err r = None"
    and "get_code (heap w) (resp_body r) = Inr (VNum 0)"
  shows "handler_flush_callback callback ev (req_err r) (resp r) (resp_body r) w =
           Inr (w\<lparr>trace := trace w @
             [ConsoleLog [LText ''Response from Splunk:'', LValue (resp_body r)],
              Callback callback None ev]\<rparr>)
         \<and> (ev \<noteq> VNull \<longrightarrow>
             (\<exists>lg' w'. handler lg ev ctx callback r w = Returned lg' w'
                \<and> trace w' = trace w @
                    [ConsoleLog [LText ''Received event:'', LStringified ev],
                     HttpPost (queue lg @
                       [\<lparr>event = ev, meta = metadata (handler_send_context ev ctx)\<rparr>]),
                     ConsoleLog [LText ''Response from Splunk:'', LValue (resp_body r)],
                     Callback callback None ev]))"
proof (intro conjI impI)
  have "truthy (resp_body r)"
    using assms(2) by (rule get_code_truthy)
  then show "handler_flush_callback callback ev (req_err r) (resp r) (resp_body r) w =
           Inr (w\<lparr>trace := trace w @
             [ConsoleLog [LText ''Response from Splunk:'', LValue (resp_body r)],
              Callback callback None ev]\<rparr>)"
    using assms by (simp add: handler_flush_callback_def emit_def)
next
  assume "ev \<noteq> VNull"
  then obtain h' where "configureLogger_eventFormatter ctx (heap w) ev = Inr (h', ev)"
    using eventFormatter_defined by blast
  then show "\<exists>lg' w'. handler lg ev ctx callback r w = Returned lg' w'
                \<and> trace w' = trace w @
                    [ConsoleLog [LText ''Received event:'', LStringified ev],
                     HttpPost (queue lg @
                       [\<lparr>event = ev, meta = metadata (handler_send_context ev ctx)\<rparr>]),
                     ConsoleLog [LText ''Response from Splunk:'', LValue (resp_body r)],
                     Callback callback None ev]"
    using assms by (simp add: handler_success)
qed

theorem success_reported_witness:
  "VRef 10 \<noteq> VNull \<and> req_err accepted = None
   \<and> get_code (heap example_world) (resp_body accepted) = Inr (VNum 0)
   \<and> (\<exists>lg' w'. handler stale_logger (VRef 10) example_context 7 accepted example_world
          = Returned lg' w'
        \<and> trace w' =
            [ConsoleLog [LText ''Received event:'', LStringified (VRef 10)],
             HttpPost
               [\<lparr>event = VRef 10,
                 meta = [(''host'', VStr ''serverless''),
                         (''source'', VStr ''lambda:iot-to-splunk''),
                         (''sourcetype'', VStr ''httpevent'')]\<rparr>],
             ConsoleLog [LText ''Response from Splunk:'', LValue (VRef 20)],
             Callback 7 None (VRef 10)])"
proof -
  have a: "VRef 10 \<noteq> VNull" by simp
  have b: "req_err accepted = None" by (simp add: accepted_def)
  have c: "get_code (heap example_world) (resp_body accepted) = Inr (VNum 0)"
    by (simp add: accepted_def example_world_def example_heap_def)
  have q: "queue stale_logger = []" by (simp add: stale_logger_def)
  have t: "trace example_world = []" by (simp add: example_world_def)
  have m: "resp_body accepted = VRef 20" by (simp add: accepted_def)
  show ?thesis
    using a b c
      success_reported [OF b c, where lg = stale_logger and ctx = example_context
        and callback = 7 and ev = "VRef 10"]
    by (simp add: q t m handler_send_context_def example_context_def)
qed

text \<open>
  Claim C2: when the flush completes with no transport error and a response body whose
  \<^verbatim>\<open>code\<close> is not 0, the function the handler gave to the flush does nothing, and an
  invocation that reaches the flush returns with a trace whose new part ends with the
  error log line and one call of its completion callback, with an error and no result;
  the callback is not called with a success result.
\<close>

theorem rejection_reported:
  assumes "req_err r = None"
    and "truthy (resp_body r)"
    and "get_code (heap w) (resp_body r) = Inr c"
    and "c \<noteq> VNum 0"
  shows "handler_flush_callback callback ev (req_err r) (resp r) (resp_body r) w = Inr w
         \<and> (ev \<noteq> VNull \<longrightarrow>
             (\<exists>lg' w'. handler lg ev ctx callback r w = Returned lg' w'
                \<and> trace w' = trace w @
                    [ConsoleLog [LText ''Received event:'', LStringified ev],
                     HttpPost (queue lg @
                       [\<lparr>event = ev, meta = metadata (handler_send_context ev ctx)\<rparr>]),
                     ConsoleLog [LText ''error'', LError (SplunkError c), LText ''context'',
                       LPayload (queue lg @
                         [\<lparr>event = ev, meta = metadata (handler_send_context ev ctx)\<rparr>])],
                     Callback callback (Some (SplunkError c)) VUndefined]
                \<and> Callback callback None ev \<notin> set (drop (length (trace w)) (trace w'))))"
proof (intro conjI impI)
  show "handler_flush_callback callback ev (req_err r) (resp r) (resp_body r) w = Inr w"
    using assms by (simp add: handler_flush_callback_def)
next
  assume "ev \<noteq> VNull"
  then obtain h' where fmt: "configureLogger_eventFormatter ctx (heap w) ev = Inr (h', ev)"
    using eventFormatter_defined by blast
  have "transport_failure (heap w) r = Some (SplunkError c)"
    using assms by (simp add: transport_failure_def)
  with fmt show "\<exists>lg' w'. handler lg ev ctx callback r w = Returned lg' w'
                \<and> trace w' = trace w @
                    [ConsoleLog [LText ''Received event:'', LStringified ev],
                     HttpPost (queue lg @
                       [\<lparr>event = ev, meta = metadata (handler_send_context ev ctx)\<rparr>]),
                     ConsoleLog [LText ''error'', LError (SplunkError c), LText ''context'',
                       LPayload (queue lg @
                         [\<lparr>event = ev, meta = metadata (handler_send_context ev ctx)\<rparr>])],
                     Callback callback (Some (SplunkError c)) VUndefined]
                \<and> Callback callback None ev \<notin> set (drop (length (trace w)) (trace w'))"
    by (simp add: handler_failure)
qed

theorem rejection_reported_witness:
  "VRef 10 \<noteq> VNull \<and> req_err rejected = None \<and> truthy (resp_body rejected)
   \<and> get_code (heap example_world) (resp_body rejected) = Inr (VNum 1)
   \<and> VNum 1 \<noteq> VNum 0
   \<and> (\<exists>lg' w'. handler stale_logger (VRef 10) example_context 7 rejected example_world
          = Returned lg' w'
        \<and> trace w' =
            [ConsoleLog [LText ''Received event:'', LStringified (VRef 10)],
             HttpPost
               [\<lparr>event = VRef 10,
                 meta = [(''host'', VStr ''serverless''),
                         (''source'', VStr ''lambda:iot-to-splunk''),
                         (''sourcetype'', VStr ''httpevent'')]\<rparr>],
             ConsoleLog [LText ''error'', LError (SplunkError (VNum 1)), LText ''context'',
               LPayload
                 [\<lparr>event = VRef 10,
                   meta = [(''host'', VStr ''serverless''),
                           (''source'', VStr ''lambda:iot-to-splunk''),
                           (''sourcetype'', VStr ''httpevent'')]\<rparr>]],
             Callback 7 (Some (SplunkError (VNum 1))) VUndefined])"
proof -
  have a: "VRef 10 \<noteq> VNull" by simp
  have b: "req_err rejected = None" by (simp add: rejected_def)
  have c: "truthy (resp_body rejected)" by (simp add: rejected_def)
  have d: "get_code (heap example_world) (resp_body rejected) = Inr (VNum 1)"
    by (simp add: rejected_def example_world_def example_heap_def)
  have e: "VNum 1 \<noteq> VNum 0" by simp
  have q: "queue stale_logger = []" by (simp add: stale_logger_def)
  have t: "trace example_world = []" by (simp add: example_world_def)
  show ?thesis
    using a b c d
      rejection_reported [OF b c d e, where lg = stale_logger
        and ctx = example_context and callback = 7 and ev = "VRef 10"]
    by (auto simp: q t handler_send_context_def example_context_def)
qed

text \<open>
  Claim C6: for every event and every context, the metadata the handler submits is
  \<^verbatim>\<open>host\<close> = \<^verbatim>\<open>serverless\<close>, \<^verbatim>\<open>source\<close> = \<^verbatim>\<open>lambda:\<close> followed by the function's name and
  \<^verbatim>\<open>sourcetype\<close> = \<^verbatim>\<open>httpevent\<close>, with neither \<^verbatim>\<open>time\<close> nor \<^verbatim>\<open>index\<close>; and in every
  invocation that returns, the batch posted to the collector ends with the record that
  carries the event and exactly this metadata.
\<close>

theorem outbound_metadata:
  "map_of (metadata (handler_send_context ev ctx)) ''host'' = Some (VStr ''serverless'')
   \<and> map_of (metadata (handler_send_context ev ctx)) ''sourcetype''
       = Some (VStr ''httpevent'')
   \<and> map_of (metadata (handler_send_context ev ctx)) ''source''
       = Some (VStr (''lambda:'' @ functionName ctx))
   \<and> map_of (metadata (handler_send_context ev ctx)) ''time'' = None
   \<and> map_of (metadata (handler_send_context ev ctx)) ''index'' = None
   \<and> own_keys (metadata (handler_send_context ev ctx))
       = {''host'', ''source'', ''sourcetype''}
   \<and> (handler lg ev ctx callback r w = Returned lg' w' \<longrightarrow>
        HttpPost (queue lg @
          [\<lparr>event = ev, meta = metadata (handler_send_context ev ctx)\<rparr>])
        \<in> set (trace w'))"
proof -
  have "handler lg ev ctx callback r w = Returned lg' w' \<longrightarrow>
        HttpPost (queue lg @
          [\<lparr>event = ev, meta = metadata (handler_send_context ev ctx)\<rparr>])
        \<in> set (trace w')"
    by (simp add: handler_returned_post)
  then show ?thesis
    by (simp add: handler_send_context_def own_keys_def)
qed

theorem outbound_metadata_witness:
  "\<exists>lg' w'. handler stale_logger (VRef 10) example_context 7 accepted example_world
       = Returned lg' w'
     \<and> HttpPost
          [\<lparr>event = VRef 10,
            meta = [(''host'', VStr ''serverless''),
                    (''source'', VStr ''lambda:iot-to-splunk''),
                    (''sourcetype'', VStr ''httpevent'')]\<rparr>]
        \<in> set (trace w')"
proof -
  have "configureLogger_eventFormatter example_context (heap example_world) (VRef 10) =
      Inr (example_heap
        (10 := example_heap 10 @ [(''awsRequestId'', awsRequestId example_context)]), VRef 10)"
    by (simp add: eventFormatter_ref example_world_def example_heap_def own_keys_def)
  moreover have "req_err accepted = None"
    by (simp add: accepted_def)
  moreover have "\<not> truthy (resp_body accepted)
      \<or> get_code (heap example_world) (resp_body accepted) = Inr (VNum 0)"
    by (simp add: accepted_def example_world_def example_heap_def)
  ultimately obtain lg' w' where
    run: "handler stale_logger (VRef 10) example_context 7 accepted example_world
      = Returned lg' w'"
    using handler_success by blast
  have q: "queue stale_logger = []" by (simp add: stale_logger_def)
  from run
    outbound_metadata [where lg = stale_logger and ev = "VRef 10"
      and ctx = example_context and callback = 7 and r = accepted
      and w = example_world and lg' = lg' and w' = w']
  have "HttpPost
          [\<lparr>event = VRef 10,
            meta = [(''host'', VStr ''serverless''),
                    (''source'', VStr ''lambda:iot-to-splunk''),
                    (''sourcetype'', VStr ''httpevent'')]\<rparr>]
        \<in> set (trace w')"
    by (simp add: q handler_send_context_def example_context_def)
  with run show ?thesis by blast
qed

text \<open>
  Claim C7: each invocation replaces both hooks of the shared transport client before it
  submits, so hooks left by an earlier invocation never run and the client ends with the
  hooks of this invocation; the error hook writes the error and the payload to the log
  and then calls the completion callback with that error; and on every failure path (the
  transport treats the exchange as failed) what the invocation adds to the trace ends
  with that log line, followed at once by the call of this invocation's completion
  callback with that error.
\<close>

theorem hooks_before_submission:
  "handler (lg\<lparr>eventFormatter := f, error := g\<rparr>) ev ctx callback r w
     = handler lg ev ctx callback r w
   \<and> eventFormatter (result_logger (handler lg ev ctx callback r w))
       = configureLogger_eventFormatter ctx
   \<and> error (result_logger (handler lg ev ctx callback r w))
       = configureLogger_error callback
   \<and> configureLogger_error callback e payload w =
       w\<lparr>trace := trace w @
         [ConsoleLog [LText ''error'', LError e, LText ''context'', LPayload payload],
          Callback callback (Some e) VUndefined]\<rparr>
   \<and> (ev \<noteq> VNull \<and> transport_failure (heap w) r = Some e \<longrightarrow>
        (\<exists>lg' w'. handler lg ev ctx callback r w = Returned lg' w'
           \<and> trace w' = trace w @
               [ConsoleLog [LText ''Received event:'', LStringified ev],
                HttpPost (queue lg @
                  [\<lparr>event = ev, meta = metadata (handler_send_context ev ctx)\<rparr>]),
                ConsoleLog [LText ''error'', LError e, LText ''context'',
                  LPayload (queue lg @
                    [\<lparr>event = ev, meta = metadata (handler_send_context ev ctx)\<rparr>])],
                Callback callback (Some e) VUndefined]))"
proof (intro conjI impI)
  show "handler (lg\<lparr>eventFormatter := f, error := g\<rparr>) ev ctx callback r w
     = handler lg ev ctx callback r w"
    by (rule handler_stale_hooks)
next
  show "eventFormatter (result_logger (handler lg ev ctx callback r w))
       = configureLogger_eventFormatter ctx"
    by (auto simp: handler_defs split: sum.splits option.splits prod.splits)
next
  show "error (result_logger (handler lg ev ctx callback r w))
       = configureLogger_error callback"
    by (auto simp: handler_defs split: sum.splits option.splits prod.splits)
next
  show "configureLogger_error callback e payload w =
       w\<lparr>trace := trace w @
         [ConsoleLog [LText ''error'', LError e, LText ''context'', LPayload payload],
          Callback callback (Some e) VUndefined]\<rparr>"
    by (simp add: configureLogger_error_def emit_def)
next
  assume a: "ev \<noteq> VNull \<and> transport_failure (heap w) r = Some e"
  then obtain h' where "configureLogger_eventFormatter ctx (heap w) ev = Inr (h', ev)"
    using eventFormatter_defined by blast
  with a show "\<exists>lg' w'. handler lg ev ctx callback r w = Returned lg' w'
           \<and> trace w' = trace w @
               [ConsoleLog [LText ''Received event:'', LStringified ev],
                HttpPost (queue lg @
                  [\<lparr>event = ev, meta = metadata (handler_send_context ev ctx)\<rparr>]),
                ConsoleLog [LText ''error'', LError e, LText ''context'',
                  LPayload (queue lg @
                    [\<lparr>event = ev, meta = metadata (handler_send_context ev ctx)\<rparr>])],
                Callback callback (Some e) VUndefined]"
    by (simp add: handler_failure)
qed

theorem hooks_before_submission_witness:
  "VRef 10 \<noteq> VNull
   \<and> transport_failure (heap example_world) unreachable = Some (RequestError ''ECONNREFUSED'')
   \<and> (\<exists>lg' w'. handler stale_logger (VRef 10) example_context 7 unreachable example_world
          = Returned lg' w'
        \<and> trace w' =
            [ConsoleLog [LText ''Received event:'', LStringified (VRef 10)],
             HttpPost
               [\<lparr>event = VRef 10,
                 meta = [(''host'', VStr ''serverless''),
                         (''source'', VStr ''lambda:iot-to-splunk''),
                         (''sourcetype'', VStr ''httpevent'')]\<rparr>],
             ConsoleLog [LText ''error'', LError (RequestError ''ECONNREFUSED''),
               LText ''context'',
               LPayload
                 [\<lparr>event = VRef 10,
                   meta = [(''host'', VStr ''serverless''),
                           (''source'', VStr ''lambda:iot-to-splunk''),
                           (''sourcetype'', VStr ''httpevent'')]\<rparr>]],
             Callback 7 (Some (RequestError ''ECONNREFUSED'')) VUndefined])"
proof -
  have a: "VRef 10 \<noteq> VNull" by simp
  have b: "transport_failure (heap example_world) unreachable
      = Some (RequestError ''ECONNREFUSED'')"
    by (simp add: transport_failure_def unreachable_def)
  have q: "queue stale_logger = []" by (simp add: stale_logger_def)
  have t: "trace example_world = []" by (simp add: example_world_def)
  show ?thesis
    using a b
      hooks_before_submission [where lg = stale_logger and ev = "VRef 10"
        and ctx = example_context and callback = 7 and r = unreachable
        and w = example_world and e = "RequestError ''ECONNREFUSED''"]
    by (auto simp: q t handler_send_context_def example_context_def)
qed

text \<open>
  Claim C8, as stated, fails: the configured batch count is not 1.
\<close>

theorem batch_count_is_not_one:
  "\<not> (maxRetries (loggerConfig Map.empty) = 3 \<and> maxBatchCount (loggerConfig Map.empty) = 1)"
  by (simp add: loggerConfig_def)

text \<open>
  Claim C8, amended: the configuration sets the retry count to 3 and the batch count to 0
  (the transport never flushes on its own; the handler flushes after each send), no
  invocation changes the configuration, and an invocation that returns leaves the queue
  of the transport client empty.
\<close>

theorem transport_configuration:
  "maxRetries (loggerConfig env) = 3
   \<and> maxBatchCount (loggerConfig env) = 0
   \<and> config (result_logger (handler lg ev ctx callback r w)) = config lg
   \<and> (handler lg ev ctx callback r w = Returned lg' w' \<longrightarrow> queue lg' = [])"
  by (simp add: loggerConfig_def handler_config handler_returned_queue)

theorem transport_configuration_witness:
  "\<exists>lg' w'. handler stale_logger (VRef 10) example_context 7 accepted example_world
       = Returned lg' w'
     \<and> queue lg' = []
     \<and> maxRetries (config lg') = 3 \<and> maxBatchCount (config lg') = 0"
proof -
  have "configureLogger_eventFormatter example_context (heap example_world) (VRef 10) =
      Inr (example_heap
        (10 := example_heap 10 @ [(''awsRequestId'', awsRequestId example_context)]), VRef 10)"
    by (simp add: eventFormatter_ref example_world_def example_heap_def own_keys_def)
  moreover have "req_err accepted = None"
    by (simp add: accepted_def)
  moreover have "\<not> truthy (resp_body accepted)
      \<or> get_code (heap example_world) (resp_body accepted) = Inr (VNum 0)"
    by (simp add: accepted_def example_world_def example_heap_def)
  ultimately obtain lg' w' where
    run: "handler stale_logger (VRef 10) example_context 7 accepted example_world
      = Returned lg' w'"
    using handler_success by blast
  note conf = transport_configuration [where env = Map.empty and lg = stale_logger
      and ev = "VRef 10" and ctx = example_context and callback = 7 and r = accepted
      and w = example_world and lg' = lg' and w' = w']
  from run conf have "queue lg' = []"
    by simp
  moreover from run conf have "config lg' = loggerConfig Map.empty"
    by (simp add: stale_logger_def)
  ultimately show ?thesis
    using run conf by auto
qed

text \<open>
  Claim C9: null has type \<^verbatim>\<open>'object'\<close>, so the payload hook reaches its has-own-property
  check, and that check throws a TypeError for null; the hook therefore ends with the
  TypeError, whatever the heap and the context, and does not return the event as it is.
  The hook that the handler has installed on the transport client throws it on the
  message the handler submits, and the invocation ends with that exception after its
  first log line: it posts nothing and calls no completion callback.
\<close>

theorem null_event_throws:
  "typeof_val VNull = ''object''
   \<and> hasOwnProperty_awsRequestId h VNull = Inl TypeError
   \<and> configureLogger_eventFormatter ctx h VNull = Inl TypeError
   \<and> configureLogger_eventFormatter ctx h VNull \<noteq> Inr (h, VNull)
   \<and> eventFormatter (configureLogger ctx callback lg) (heap w)
         (message (handler_send_context VNull ctx)) = Inl TypeError
   \<and> handler lg VNull ctx callback r w =
       Threw TypeError (configureLogger ctx callback lg)
         (emit [ConsoleLog [LText ''Received event:'', LStringified VNull]] w)"
proof (intro conjI)
  show "typeof_val VNull = ''object''"
    by simp
next
  show "hasOwnProperty_awsRequestId h VNull = Inl TypeError"
    by simp
next
  show "configureLogger_eventFormatter ctx h VNull = Inl TypeError"
    by (rule eventFormatter_null)
next
  show "configureLogger_eventFormatter ctx h VNull \<noteq> Inr (h, VNull)"
    by (simp add: eventFormatter_null)
next
  show "eventFormatter (configureLogger ctx callback lg) (heap w)
         (message (handler_send_context VNull ctx)) = Inl TypeError"
    by (simp add: configureLogger_def message_handler_send_context eventFormatter_null)
next
  show "handler lg VNull ctx callback r w =
       Threw TypeError (configureLogger ctx callback lg)
         (emit [ConsoleLog [LText ''Received event:'', LStringified VNull]] w)"
    by (rule handler_null)
qed

text \<open>
  Claim C10: on the success path (no transport error, and a response body that is absent
  or has \<^verbatim>\<open>code\<close> 0), for an event that is an object without the field \<^verbatim>\<open>awsRequestId\<close>,
  the completion callback receives the very reference the handler was given, and the
  object behind it is no longer as supplied: it has the field \<^verbatim>\<open>awsRequestId\<close> appended.
\<close>

theorem echoed_event_is_augmented:
  assumes "''awsRequestId'' \<notin> own_keys (heap w a)"
    and "req_err r = None"
    and "\<not> truthy (resp_body r) \<or> get_code (heap w) (resp_body r) = Inr (VNum 0)"
  shows "\<exists>lg' w'. handler lg (VRef a) ctx callback r w = Returned lg' w'
           \<and> last (trace w') = Callback callback None (VRef a)
           \<and> heap w' a = heap w a @ [(''awsRequestId'', awsRequestId ctx)]
           \<and> heap w' a \<noteq> heap w a
           \<and> (\<forall>b. b \<noteq> a \<longrightarrow> heap w' b = heap w b)"
proof -
  have "configureLogger_eventFormatter ctx (heap w) (VRef a) =
      Inr ((heap w)(a := heap w a @ [(''awsRequestId'', awsRequestId ctx)]), VRef a)"
    using assms(1) by (simp add: eventFormatter_ref)
  then show ?thesis
    using assms(2,3) by (simp add: handler_success)
qed

theorem echoed_event_is_augmented_witness:
  "''awsRequestId'' \<notin> own_keys (heap example_world 10)
   \<and> req_err accepted = None
   \<and> get_code (heap example_world) (resp_body accepted) = Inr (VNum 0)
   \<and> (\<exists>lg' w'. handler stale_logger (VRef 10) example_context 7 accepted example_world
          = Returned lg' w'
        \<and> last (trace w') = Callback 7 None (VRef 10)
        \<and> heap w' 10 = [(''temperature'', VNum 21), (''awsRequestId'', VStr ''req-1'')]
        \<and> heap example_world 10 = [(''temperature'', VNum 21)])"
proof -
  have a: "''awsRequestId'' \<notin> own_keys (heap example_world 10)"
    by (simp add: example_world_def example_heap_def own_keys_def)
  have b: "req_err accepted = None" by (simp add: accepted_def)
  have c: "get_code (heap example_world) (resp_body accepted) = Inr (VNum 0)"
    by (simp add: accepted_def example_world_def example_heap_def)
  have d: "\<not> truthy (resp_body accepted)
      \<or> get_code (heap example_world) (resp_body accepted) = Inr (VNum 0)"
    using c by simp
  have obj: "heap example_world 10 = [(''temperature'', VNum 21)]"
    by (simp add: example_world_def example_heap_def)
  have rid: "awsRequestId example_context = VStr ''req-1''"
    by (simp add: example_context_def)
  show ?thesis
    using a b c obj
      echoed_event_is_augmented [OF a b d, where lg = stale_logger
        and ctx = example_context and callback = 7]
    by (auto simp: rid)
qed

end
